theory Spec2Isabelle
  imports Complex_Main
begin

section \<open>Conventions of the embedding\<close>

text \<open>
  The development embeds the session-management core of \<^verbatim>\<open>stata_ai_fusion\<close>
  (\<^verbatim>\<open>stata_session.py\<close> and \<^verbatim>\<open>graph_cache.py\<close>).

  A Python \<^verbatim>\<open>str\<close> is a \<^typ>\<open>string\<close>, one \<^typ>\<open>char\<close> per code point: the texts
  covered are those whose code points lie below 256 (ASCII and Latin-1), and the
  character classes below are Python's, restricted to that range. A \<^verbatim>\<open>Path\<close> is the
  string that \<^verbatim>\<open>str(path)\<close> gives on a POSIX system, \<^verbatim>\<open>bytes\<close> is a list of numbers
  below 256, a Python \<^verbatim>\<open>int\<close> is an \<^typ>\<open>int\<close>, a time stamp is a \<^typ>\<open>real\<close>
  (only compared and subtracted). An exception is a value of \<open>error\<close>, returned on the
  left of a sum.
\<close>

type_synonym path = string
type_synonym bytes = "nat list"

datatype oserror = FileNotFoundError | PermissionError | IsADirectoryError | OtherOSError

datatype error =
    UnsupportedGraphFormat string path
  | OSError oserror
  | RuntimeError string
  | TimeoutExpired
  | PexpectTIMEOUT
  | PexpectEOF

section \<open>Python text primitives\<close>

text \<open>\<^verbatim>\<open>str.isspace\<close>, which is also the class \<^verbatim>\<open>\s\<close> of \<^verbatim>\<open>re\<close> on \<^verbatim>\<open>str\<close> patterns.\<close>

definition isspace :: "char \<Rightarrow> bool" where
  "isspace c = (c \<in> set [CHR 0x09, CHR 0x0A, CHR 0x0B, CHR 0x0C, CHR 0x0D, CHR 0x1C,
                          CHR 0x1D, CHR 0x1E, CHR 0x1F, CHR 0x20, CHR 0x85, CHR 0xA0])"

text \<open>The class \<^verbatim>\<open>\d\<close>: below 256 the decimal digits are the ASCII ones.\<close>

definition isdigit :: "char \<Rightarrow> bool" where
  "isdigit c = (c \<in> set ''0123456789'')"

text \<open>The class \<^verbatim>\<open>\w\<close>: alphanumeric characters and the underscore.\<close>

definition isword :: "char \<Rightarrow> bool" where
  "isword c =
     (c \<in> set ''0123456789ABCDEFGHIJKLMNOPQRSTUVWXYZ_abcdefghijklmnopqrstuvwxyz''
      \<or> (let n = (of_char c :: nat) in
            n \<in> set [170, 178, 179, 181, 185, 186, 188, 189, 190]
            \<or> (192 \<le> n \<and> n \<noteq> 215 \<and> n \<noteq> 247)))"

text \<open>Lower-casing of one character, as \<^verbatim>\<open>str.lower\<close> and \<^verbatim>\<open>re.IGNORECASE\<close> do it.\<close>

definition tolower :: "char \<Rightarrow> char" where
  "tolower c =
     (let n = (of_char c :: nat) in
      if (65 \<le> n \<and> n \<le> 90) \<or> (192 \<le> n \<and> n \<le> 222 \<and> n \<noteq> 215)
      then char_of (n + 32) else c)"

definition lower :: "string \<Rightarrow> string" where
  "lower s = map tolower s"

definition lstrip :: "string \<Rightarrow> string" where
  "lstrip s = dropWhile isspace s"

definition rstrip :: "string \<Rightarrow> string" where
  "rstrip s = rev (dropWhile isspace (rev s))"

definition strip :: "string \<Rightarrow> string" where
  "strip s = lstrip (rstrip s)"

definition startswith :: "string \<Rightarrow> string \<Rightarrow> bool" where
  "startswith s pre = (take (length pre) s = pre)"

text \<open>The substring test \<^verbatim>\<open>sub in s\<close>.\<close>

fun str_contains :: "string \<Rightarrow> string \<Rightarrow> bool" where
  "str_contains [] sub = (sub = [])"
| "str_contains (c # s) sub = (startswith (c # s) sub \<or> str_contains s sub)"

text \<open>
  \<^verbatim>\<open>str.splitlines\<close>: a line ends at a line boundary, \<^verbatim>\<open>\r\n\<close> counts as one
  boundary, the boundaries are dropped, and a text that ends with a boundary has no
  empty last line. \<open>cur\<close> is the current line, reversed.
\<close>

definition is_linebreak :: "char \<Rightarrow> bool" where
  "is_linebreak c = (c \<in> set [CHR 0x0A, CHR 0x0B, CHR 0x0C, CHR 0x0D, CHR 0x1C,
                               CHR 0x1D, CHR 0x1E, CHR 0x85])"

fun splitlines_from :: "string \<Rightarrow> string \<Rightarrow> string list" where
  "splitlines_from cur [] = (if cur = [] then [] else [rev cur])"
| "splitlines_from cur (c # s) =
     (if is_linebreak c then
        rev cur # (case s of
                     [] \<Rightarrow> splitlines_from [] s
                   | c' # s' \<Rightarrow> if c = CHR 0x0D \<and> c' = CHR 0x0A
                                then splitlines_from [] s' else splitlines_from [] s)
      else splitlines_from (c # cur) s)"

definition splitlines :: "string \<Rightarrow> string list" where
  "splitlines s = splitlines_from [] s"

text \<open>\<^verbatim>\<open>sep.join(parts)\<close>.\<close>

fun join :: "string \<Rightarrow> string list \<Rightarrow> string" where
  "join sep [] = []"
| "join sep [x] = x"
| "join sep (x # y # ys) = x @ sep @ join sep (y # ys)"

text \<open>\<^verbatim>\<open>int(digits)\<close> on a string of decimal digits, and \<^verbatim>\<open>str(n)\<close> on an integer.\<close>

definition digit_val :: "char \<Rightarrow> int" where
  "digit_val c = int (of_char c) - 48"

definition py_int :: "string \<Rightarrow> int" where
  "py_int ds = foldl (\<lambda>n c. 10 * n + digit_val c) 0 ds"

fun nat_digits :: "nat \<Rightarrow> string" where
  "nat_digits n =
     (if n < 10 then [char_of (48 + n)]
      else nat_digits (n div 10) @ [char_of (48 + n mod 10)])"

declare nat_digits.simps [simp del]

definition py_str :: "int \<Rightarrow> string" where
  "py_str i = (if i < 0 then CHR ''-'' # nat_digits (nat (- i)) else nat_digits (nat i))"

section \<open>Regular expressions\<close>

text \<open>
  The patterns of the source are values of \<open>regex\<close>, and \<open>rx_run\<close> is the
  backtracking matcher of \<^verbatim>\<open>re\<close>: from a position it returns every way the pattern can
  match there, in the order in which backtracking tries them, so that the head of the list
  is the match that \<^verbatim>\<open>re\<close> reports. A position is the character before it (for \<^verbatim>\<open>\b\<close>
  and \<^verbatim>\<open>^\<close>; \<open>None\<close> at the start of the text), the rest of the text, and the text
  of capture group 1 if it has matched.
\<close>

datatype cclass = Lit char | LitI char | Digit | Space | Dot | OneOf string | NotOf string

fun cmatch :: "cclass \<Rightarrow> char \<Rightarrow> bool" where
  "cmatch (Lit a) c = (c = a)"
| "cmatch (LitI a) c = (tolower c = tolower a)"
| "cmatch Digit c = isdigit c"
| "cmatch Space c = isspace c"
| "cmatch Dot c = (c \<noteq> CHR 0x0A)"
| "cmatch (OneOf cs) c = (c \<in> set cs)"
| "cmatch (NotOf cs) c = (c \<notin> set cs)"

datatype regex =
    Eps
  | Sym cclass
  | Seq regex regex
  | Alt regex regex
  | Star regex
  | Group regex
  | Bos
  | WordB

type_synonym cfg = "char option \<times> string \<times> string option"

definition at_boundary :: "char option \<Rightarrow> string \<Rightarrow> bool" where
  "at_boundary p s =
     ((case p of None \<Rightarrow> False | Some a \<Rightarrow> isword a)
        \<noteq> (case s of [] \<Rightarrow> False | b # _ \<Rightarrow> isword b))"

function rx_run :: "regex \<Rightarrow> cfg \<Rightarrow> cfg list" where
  "rx_run Eps c = [c]"
| "rx_run (Sym k) (p, s, g) =
     (case s of [] \<Rightarrow> [] | x # xs \<Rightarrow> if cmatch k x then [(Some x, xs, g)] else [])"
| "rx_run (Seq a b) c = concat (map (rx_run b) (rx_run a c))"
| "rx_run (Alt a b) c = rx_run a c @ rx_run b c"
| "rx_run (Star a) c =
     concat (map (\<lambda>c'. if length (fst (snd c')) < length (fst (snd c))
                         then rx_run (Star a) c' else [])
                 (rx_run a c)) @ [c]"
| "rx_run (Group a) (p, s, g) =
     map (\<lambda>(p', s', g'). (p', s', Some (take (length s - length s') s))) (rx_run a (p, s, g))"
| "rx_run Bos (p, s, g) = (if p = None then [(p, s, g)] else [])"
| "rx_run WordB (p, s, g) = (if at_boundary p s then [(p, s, g)] else [])"
  by pat_completeness auto
termination
  by (relation "measures [\<lambda>(r, c). size r, \<lambda>(r, c). length (fst (snd c))]") auto

text \<open>The derived forms \<^verbatim>\<open>r+\<close>, \<^verbatim>\<open>r?\<close>, a literal string, an alternation and a sequence.\<close>

definition Plus :: "regex \<Rightarrow> regex" where
  "Plus r = Seq r (Star r)"

definition Opt :: "regex \<Rightarrow> regex" where
  "Opt r = Alt r Eps"

definition Str :: "string \<Rightarrow> regex" where
  "Str s = foldr (\<lambda>c r. Seq (Sym (Lit c)) r) s Eps"

definition StrI :: "string \<Rightarrow> regex" where
  "StrI s = foldr (\<lambda>c r. Seq (Sym (LitI c)) r) s Eps"

fun Alts :: "regex list \<Rightarrow> regex" where
  "Alts [] = Sym (OneOf [])"
| "Alts [r] = r"
| "Alts (r # rs) = Alt r (Alts rs)"

fun Seqs :: "regex list \<Rightarrow> regex" where
  "Seqs [] = Eps"
| "Seqs [r] = r"
| "Seqs (r # rs) = Seq r (Seqs rs)"

text \<open>
  A match: the text before it, the matched text (group 0), group 1, the text after it
  and the character that ends it.
\<close>

datatype rmatch = RMatch (m_before: string) (m_text: string) (m_group1: "string option")
  (m_after: string) (m_last: "char option")

text \<open>The match of a pattern at the current position, if any.\<close>

definition rx_at :: "regex \<Rightarrow> char option \<Rightarrow> string \<Rightarrow> (string \<times> string option \<times> string \<times> char option) option" where
  "rx_at r p s =
     (case rx_run r (p, s, None) of
        [] \<Rightarrow> None
      | (p', s', g) # _ \<Rightarrow> Some (take (length s - length s') s, g, s', p'))"

text \<open>
  \<^verbatim>\<open>pattern.search(text)\<close>: the first position, from the left, at which the pattern
  matches. \<open>pre\<close> is the text already passed, reversed.
\<close>

fun search_from :: "regex \<Rightarrow> string \<Rightarrow> char option \<Rightarrow> string \<Rightarrow> rmatch option" where
  "search_from r pre p [] =
     (case rx_at r p [] of
        None \<Rightarrow> None
      | Some (t, g, s', p') \<Rightarrow> Some (RMatch (rev pre) t g s' p'))"
| "search_from r pre p (c # s) =
     (case rx_at r p (c # s) of
        None \<Rightarrow> search_from r (c # pre) (Some c) s
      | Some (t, g, s', p') \<Rightarrow> Some (RMatch (rev pre) t g s' p'))"

definition re_search :: "regex \<Rightarrow> string \<Rightarrow> rmatch option" where
  "re_search r s = search_from r [] None s"

text \<open>
  \<^verbatim>\<open>pattern.sub(repl, text)\<close> with a function \<open>repl\<close> of group 1: the matches are found
  from the left, none overlapping, each replaced. Neither pattern that the source
  substitutes can match the empty string; the branch for an empty match (replace, then
  copy one character) is there to make the function total.
\<close>

function sub_from :: "regex \<Rightarrow> (string option \<Rightarrow> string) \<Rightarrow> char option \<Rightarrow> string \<Rightarrow> string" where
  "sub_from r f p s =
     (case rx_at r p s of
        None \<Rightarrow> (case s of [] \<Rightarrow> [] | c # s' \<Rightarrow> c # sub_from r f (Some c) s')
      | Some (t, g, s', p') \<Rightarrow>
          if length s' < length s then f g @ sub_from r f p' s'
          else f g @ (case s of [] \<Rightarrow> [] | c # s'' \<Rightarrow> c # sub_from r f (Some c) s''))"
  by pat_completeness auto
termination
  by (relation "measure (\<lambda>(r, f, p, s). length s)") auto

definition re_sub :: "regex \<Rightarrow> (string option \<Rightarrow> string) \<Rightarrow> string \<Rightarrow> string" where
  "re_sub r f s = sub_from r f None s"

section \<open>SMCL tag stripping\<close>

text \<open>
  \<^verbatim>\<open>_SMCL_TAG_RE\<close>; \<open>SMCL_TAG_BODY\<close> is the alternation between the braces, its
  alternatives in the order of the source.
\<close>

definition ws1 :: regex where
  "ws1 = Plus (Sym Space)"

definition num1 :: regex where
  "num1 = Plus (Sym Digit)"

definition rest_of_tag :: regex where
  "rest_of_tag = Star (Sym (NotOf ''}''))"

definition SMCL_TAG_BODY :: regex where
  "SMCL_TAG_BODY = Alts [
     Seq (Str ''res'') (Opt (Str ''ult'')), Str ''txt'', Str ''text'',
     Seq (Str ''err'') (Opt (Str ''or'')), Str ''cmd'',
     Seq (Str ''inp'') (Opt (Str ''ut'')), Str ''bf'', Str ''it'', Str ''sf'',
     Str ''com'', Seq (Str ''hline'') (Opt (Seq ws1 num1)),
     Seqs [Str ''dup'', ws1, num1, Str '':'', rest_of_tag],
     Seqs [Str ''space'', ws1, num1], Seqs [Str ''col'', ws1, num1],
     Seqs [Str ''ralign'', ws1, num1, Str '':'', rest_of_tag],
     Seqs [Str ''lalign'', ws1, num1, Str '':'', rest_of_tag],
     Seqs [Str ''center'', ws1, num1, Str '':'', rest_of_tag],
     Str ''right'', Str ''reset'', Str ''smcl'', Str ''p_end'', Str ''p '', Str ''pstd'',
     Str ''phang'', Str ''pmore'', Seq (Str ''p2colset'') rest_of_tag,
     Seq (Str ''p2col'') rest_of_tag, Seq (Str ''p2line'') rest_of_tag,
     Seq (Str ''marker'') rest_of_tag, Seq (Str ''dlgtab'') rest_of_tag,
     Seq (Str ''title'') rest_of_tag, Seq (Str ''hi'') (Opt (Str ''lite'')),
     Seqs [Str ''ul'', ws1, Alt (Str ''on'') (Str ''off'')],
     Seqs [Str ''bind'', ws1, rest_of_tag], Seqs [Str ''char'', ws1, rest_of_tag],
     Str ''break'']"

definition braced :: "regex \<Rightarrow> regex" where
  "braced body = Seq (Sym (Lit CHR ''{'')) (Seq body (Sym (Lit CHR ''}'')))"

definition SMCL_TAG_RE :: regex where
  "SMCL_TAG_RE = braced SMCL_TAG_BODY"

text \<open>\<^verbatim>\<open>_SMCL_CHAR_RE\<close>, the escapes \<^verbatim>\<open>{c ...}\<close>, and \<^verbatim>\<open>_SMCL_CHAR_MAP\<close>.\<close>

definition SMCL_CHAR_BODY :: regex where
  "SMCL_CHAR_BODY = Seqs [Str ''c'', ws1, Group (Plus (Sym (NotOf ''}'')))]"

definition SMCL_CHAR_RE :: regex where
  "SMCL_CHAR_RE = braced SMCL_CHAR_BODY"

definition SMCL_CHAR_MAP :: "(string \<times> string) list" where
  "SMCL_CHAR_MAP = [(''|'', ''|''), (''-'', ''-''), (''+'', ''+''), (''TT'', ''+''),
     (''BT'', ''+''), (''TLC'', ''+''), (''TRC'', ''+''), (''BLC'', ''+''),
     (''BRC'', ''+''), (''LT'', ''+''), (''RT'', ''+'')]"

text \<open>
  \<^verbatim>\<open>_replace_char\<close>: the key is group 1, stripped; an unmapped key gives the empty
  string. (Group 1 always takes part in a match of \<^verbatim>\<open>_SMCL_CHAR_RE\<close>.)
\<close>

definition replace_char :: "string option \<Rightarrow> string" where
  "replace_char g =
     (case map_of SMCL_CHAR_MAP (strip (case g of None \<Rightarrow> [] | Some k \<Rightarrow> k)) of
        None \<Rightarrow> [] | Some v \<Rightarrow> v)"

definition strip_smcl :: "string \<Rightarrow> string" where
  "strip_smcl text = re_sub SMCL_TAG_RE (\<lambda>_. []) (re_sub SMCL_CHAR_RE replace_char text)"

section \<open>Error detection\<close>

text \<open>\<^verbatim>\<open>_ERROR_CODE_RE\<close> and the phrases \<^verbatim>\<open>ERROR_PATTERNS[1:]\<close>, which ignore case.\<close>

definition ERROR_CODE_RE :: regex where
  "ERROR_CODE_RE = Seqs [Str ''r('', Group (Plus (Sym Digit)), Str '')'']"

definition ERROR_PHRASES :: "regex list" where
  "ERROR_PHRASES = [
     StrI ''no observations'',
     Seqs [StrI ''variable'', ws1, Plus (Sym Dot), ws1, StrI ''not found''],
     StrI ''type mismatch'',
     StrI ''conformability error'',
     StrI ''op.sys refuses to'',
     StrI ''could not find file'',
     StrI ''no room to add more'']"

text \<open>
  The loop of \<^verbatim>\<open>_detect_error\<close> over the lines: it stops at the first line whose
  stripped text holds a coded token and collects the stripped non-blank lines before it.
\<close>

fun collect_parts :: "string list \<Rightarrow> string list \<Rightarrow> string list" where
  "collect_parts parts [] = parts"
| "collect_parts parts (line # lines) =
     (let stripped = strip line in
      if re_search ERROR_CODE_RE stripped \<noteq> None then parts
      else if stripped \<noteq> [] then collect_parts (parts @ [stripped]) lines
      else collect_parts parts lines)"

text \<open>The loop over the phrases: the first pattern that matches gives the message.\<close>

fun first_phrase :: "regex list \<Rightarrow> string \<Rightarrow> string option" where
  "first_phrase [] out = None"
| "first_phrase (r # rs) out =
     (case re_search r out of None \<Rightarrow> first_phrase rs out | Some m \<Rightarrow> Some (m_text m))"

definition detect_error :: "string \<Rightarrow> string option \<times> int option" where
  "detect_error out =
     (case re_search ERROR_CODE_RE out of
        Some m \<Rightarrow>
          (let code = py_int (case m_group1 m of None \<Rightarrow> [] | Some ds \<Rightarrow> ds);
               error_msg_parts = collect_parts [] (splitlines out);
               error_msg = (if error_msg_parts \<noteq> [] then last error_msg_parts
                            else ''Stata error r('' @ py_str code @ '')'')
           in (Some error_msg, Some code))
      | None \<Rightarrow>
          (case first_phrase ERROR_PHRASES out of
             Some t \<Rightarrow> (Some t, None)
           | None \<Rightarrow> (None, None)))"

section \<open>Graph artifacts\<close>

text \<open>\<^verbatim>\<open>_SUPPORTED_EXTENSIONS\<close> of \<^verbatim>\<open>graph_cache.py\<close>.\<close>

definition SUPPORTED_EXTENSIONS :: "(string \<times> string) list" where
  "SUPPORTED_EXTENSIONS = [(''.png'', ''image/png''), (''.pdf'', ''application/pdf''),
     (''.svg'', ''image/svg+xml''), (''.gph'', ''application/x-stata-graph'')]"

text \<open>The dataclass \<^verbatim>\<open>GraphArtifact\<close>.\<close>

record GraphArtifact =
  path :: path
  format :: string
  base64 :: string
  width :: "nat option"
  height :: "nat option"

text \<open>
  Paths: \<^verbatim>\<open>dir / name\<close>, \<^verbatim>\<open>path.name\<close>, \<^verbatim>\<open>path.suffix\<close> (the text from the last dot
  of the name, when that dot is neither the first nor the last character of the name)
  and \<^verbatim>\<open>path.stem\<close>.
\<close>

definition joinpath :: "path \<Rightarrow> string \<Rightarrow> path" where
  "joinpath d name = (if d \<noteq> [] \<and> last d = CHR ''/'' then d @ name else d @ ''/'' @ name)"

definition path_name :: "path \<Rightarrow> string" where
  "path_name p = rev (takeWhile (\<lambda>c. c \<noteq> CHR ''/'') (rev p))"

definition name_suffix :: "string \<Rightarrow> string" where
  "name_suffix name =
     (let r = takeWhile (\<lambda>c. c \<noteq> CHR ''.'') (rev name) in
      if CHR ''.'' \<in> set name \<and> r \<noteq> [] \<and> length r + 1 < length name
      then CHR ''.'' # rev r else [])"

definition path_suffix :: "path \<Rightarrow> string" where
  "path_suffix p = name_suffix (path_name p)"

definition path_stem :: "path \<Rightarrow> string" where
  "path_stem p =
     (let name = path_name p in take (length name - length (name_suffix name)) name)"

text \<open>\<^verbatim>\<open>base64.b64encode(raw).decode("ascii")\<close>.\<close>

definition b64char :: "nat \<Rightarrow> char" where
  "b64char n =
     ''ABCDEFGHIJKLMNOPQRSTUVWXYZabcdefghijklmnopqrstuvwxyz0123456789+/'' ! (n mod 64)"

fun b64encode :: "bytes \<Rightarrow> string" where
  "b64encode [] = []"
| "b64encode [a] = [b64char (a div 4), b64char ((a mod 4) * 16), CHR ''='', CHR ''='']"
| "b64encode [a, b] =
     [b64char (a div 4), b64char ((a mod 4) * 16 + b div 16), b64char ((b mod 16) * 4),
      CHR ''='']"
| "b64encode (a # b # c # rest) =
     [b64char (a div 4), b64char ((a mod 4) * 16 + b div 16),
      b64char ((b mod 16) * 4 + c div 64), b64char (c mod 64)] @ b64encode rest"

text \<open>
  Reading a file: the file system answers \<^verbatim>\<open>read_bytes\<close>, or the \<^verbatim>\<open>open\<close> and
  \<^verbatim>\<open>read\<close> of \<^verbatim>\<open>_png_dimensions\<close>, with the content or with an \<^verbatim>\<open>OSError\<close>.
\<close>

type_synonym reader = "path \<Rightarrow> oserror + bytes"

definition PNG_MAGIC :: bytes where
  "PNG_MAGIC = [0x89, 0x50, 0x4E, 0x47, 0x0D, 0x0A, 0x1A, 0x0A]"

text \<open>\<^verbatim>\<open>struct.unpack(">I", b)\<close> on four bytes.\<close>

definition be32 :: "bytes \<Rightarrow> nat" where
  "be32 b = foldl (\<lambda>n x. 256 * n + x) 0 b"

text \<open>
  \<^verbatim>\<open>_png_dimensions\<close>: the first 24 bytes of the file; \<open>(None, None)\<close> when the file
  cannot be read (\<^verbatim>\<open>except OSError\<close>), is shorter than 24 bytes or does not start with
  the PNG signature.
\<close>

definition png_dimensions :: "reader \<Rightarrow> path \<Rightarrow> nat option \<times> nat option" where
  "png_dimensions rd p =
     (case rd p of
        Inl e \<Rightarrow> (None, None)
      | Inr content \<Rightarrow>
          (let header = take 24 content in
           if length header < 24 then (None, None)
           else if take 8 header \<noteq> PNG_MAGIC then (None, None)
           else (Some (be32 (take 4 (drop 16 header))), Some (be32 (take 4 (drop 20 header))))))"

text \<open>
  \<^verbatim>\<open>GraphCache.encode_graph\<close>. \<open>rb\<close> answers \<^verbatim>\<open>path.read_bytes()\<close> and \<open>rh\<close> the later
  read of the header; they are the same function when the file does not change between
  the two reads.
\<close>

definition encode_graph :: "reader \<Rightarrow> reader \<Rightarrow> path \<Rightarrow> error + GraphArtifact" where
  "encode_graph rb rh p =
     (let suffix = lower (path_suffix p) in
      if suffix \<notin> set (map fst SUPPORTED_EXTENSIONS)
      then Inl (UnsupportedGraphFormat suffix p)
      else (case rb p of
              Inl e \<Rightarrow> Inl (OSError e)
            | Inr raw \<Rightarrow>
                (let encoded = b64encode raw;
                     fmt = dropWhile (\<lambda>c. c = CHR ''.'') suffix;
                     (w, h) = (if suffix = ''.png'' then png_dimensions rh p
                               else (None, None))
                 in Inr \<lparr>path = p, format = fmt, base64 = encoded,
                         width = w, height = h\<rparr>)))"

section \<open>The graph cache\<close>

text \<open>
  An entry of the watched directory: its name, whether it is a regular file
  (\<^verbatim>\<open>is_file\<close>), and its modification time (\<open>None\<close> when \<^verbatim>\<open>stat\<close> raises
  \<^verbatim>\<open>OSError\<close>). A directory is the list of its entries in the order in which the system
  lists them, or \<open>None\<close> when the path is not a directory. A dictionary that is iterated
  is an association list in insertion order.
\<close>

datatype dentry = DEntry (d_name: string) (d_is_file: bool) (d_mtime: "real option")

type_synonym directory = "dentry list option"
type_synonym snapshot = "(path \<times> real) list"

definition dict_set :: "('k \<times> 'v) list \<Rightarrow> 'k \<Rightarrow> 'v \<Rightarrow> ('k \<times> 'v) list" where
  "dict_set d k v =
     (if k \<in> set (map fst d) then map (\<lambda>(k', v'). if k' = k then (k', v) else (k', v')) d
      else d @ [(k, v)])"

text \<open>\<^verbatim>\<open>watch_dir.glob("*" + ext)\<close>, on a system whose file names are case-sensitive.\<close>

definition endswith :: "string \<Rightarrow> string \<Rightarrow> bool" where
  "endswith s suf = (length suf \<le> length s \<and> drop (length s - length suf) s = suf)"

definition glob_ext :: "dentry list \<Rightarrow> string \<Rightarrow> dentry list" where
  "glob_ext entries ext = filter (\<lambda>e. endswith (d_name e) ext) entries"

text \<open>\<^verbatim>\<open>GraphCache._scan\<close>: the inner loop over the paths of one extension, then the loop
  over the extensions.\<close>

fun scan_paths :: "path \<Rightarrow> snapshot \<Rightarrow> dentry list \<Rightarrow> snapshot" where
  "scan_paths wd results [] = results"
| "scan_paths wd results (e # es) =
     (if d_is_file e then
        (case d_mtime e of
           None \<Rightarrow> scan_paths wd results es
         | Some t \<Rightarrow> scan_paths wd (dict_set results (joinpath wd (d_name e)) t) es)
      else scan_paths wd results es)"

fun scan_exts :: "path \<Rightarrow> dentry list \<Rightarrow> snapshot \<Rightarrow> string list \<Rightarrow> snapshot" where
  "scan_exts wd entries results [] = results"
| "scan_exts wd entries results (ext # exts) =
     scan_exts wd entries (scan_paths wd results (glob_ext entries ext)) exts"

definition scan :: "path \<Rightarrow> directory \<Rightarrow> snapshot" where
  "scan wd dir =
     (case dir of
        None \<Rightarrow> []
      | Some entries \<Rightarrow> scan_exts wd entries [] (map fst SUPPORTED_EXTENSIONS))"

text \<open>\<^verbatim>\<open>GraphCache.take_snapshot\<close>: the new value of \<^verbatim>\<open>_snapshot\<close>.\<close>

definition take_snapshot :: "path \<Rightarrow> directory \<Rightarrow> snapshot" where
  "take_snapshot wd dir = scan wd dir"

text \<open>
  \<^verbatim>\<open>GraphCache.detect_changes\<close>: the loop over the current files, in which a failed
  encode is logged and skipped, then the returned list and the new \<^verbatim>\<open>_snapshot\<close>.
\<close>

fun detect_loop :: "reader \<Rightarrow> reader \<Rightarrow> snapshot \<Rightarrow> GraphArtifact list \<Rightarrow> snapshot \<Rightarrow> GraphArtifact list" where
  "detect_loop rb rh snap changed [] = changed"
| "detect_loop rb rh snap changed ((p, mtime) # rest) =
     (let prev_mtime = map_of snap p in
      if prev_mtime = None \<or> mtime > the prev_mtime then
        (case encode_graph rb rh p of
           Inr artifact \<Rightarrow> detect_loop rb rh snap (changed @ [artifact]) rest
         | Inl e \<Rightarrow> detect_loop rb rh snap changed rest)
      else detect_loop rb rh snap changed rest)"

definition detect_changes :: "path \<Rightarrow> directory \<Rightarrow> reader \<Rightarrow> reader \<Rightarrow> snapshot \<Rightarrow> GraphArtifact list \<times> snapshot" where
  "detect_changes wd dir rb rh snap =
     (let current = scan wd dir in (detect_loop rb rh snap [] current, current))"

section \<open>Automatic graph export\<close>

text \<open>\<^verbatim>\<open>_GRAPH_CMD_RE\<close> and \<^verbatim>\<open>_HAS_EXPORT_RE\<close> (written in verbose mode in the source).\<close>

definition line_start :: regex where
  "line_start = Alt Bos (Sym (Lit CHR 0x0A))"

definition blanks :: cclass where
  "blanks = OneOf [CHR '' '', CHR 0x09]"

definition quietly_prefix :: regex where
  "quietly_prefix = Opt (Seqs [Str ''qui'', Opt (Str ''etly''), Plus (Sym blanks)])"

definition GRAPH_CMD_RE :: regex where
  "GRAPH_CMD_RE = Seqs [line_start, Star (Sym blanks), quietly_prefix,
     Alts [Seq (Str ''graph'') WordB, Seqs [Str ''tw'', Opt (Str ''oway''), WordB],
           Seq (Str ''scatter'') WordB, Seq (Str ''line'') WordB,
           Seq (Str ''histogram'') WordB, Seq (Str ''hist'') WordB,
           Seq (Str ''kdensity'') WordB, Seq (Str ''qnorm'') WordB,
           Seq (Str ''pnorm'') WordB, Seq (Str ''rvfplot'') WordB,
           Seq (Str ''avplot'') WordB, Seq (Str ''lvr2plot'') WordB,
           Seq (Str ''marginsplot'') WordB, Seq (Str ''coefplot'') WordB]]"

definition HAS_EXPORT_RE :: regex where
  "HAS_EXPORT_RE = Seqs [line_start, Star (Sym blanks), quietly_prefix,
     Str ''graph'', Plus (Sym blanks), Str ''export'', WordB]"

text \<open>
  The line that is appended, for the scratch directory \<open>tmpdir\<close> and the time stamp
  \<open>timestamp\<close>, which the source computes as \<^verbatim>\<open>int(time.time() * 1000)\<close>.
\<close>

definition export_path :: "path \<Rightarrow> int \<Rightarrow> path" where
  "export_path tmpdir timestamp = joinpath tmpdir (''stata_graph_'' @ py_str timestamp @ ''.png'')"

definition export_line :: "path \<Rightarrow> int \<Rightarrow> string" where
  "export_line tmpdir timestamp =
     [CHR 0x0A] @ ''quietly graph export \"'' @ export_path tmpdir timestamp
       @ ''\", width(2000) replace''"

definition maybe_inject_graph_export :: "string \<Rightarrow> path \<Rightarrow> int \<Rightarrow> string" where
  "maybe_inject_graph_export code tmpdir timestamp =
     (if re_search HAS_EXPORT_RE code \<noteq> None then code
      else if re_search GRAPH_CMD_RE code = None then code
      else rstrip code @ export_line tmpdir timestamp)"

section \<open>Execution results\<close>

text \<open>
  The dataclass \<^verbatim>\<open>ExecutionResult\<close> of \<^verbatim>\<open>stata_session.py\<close> (the field \<^verbatim>\<open>output\<close> is
  \<open>output_text\<close> here). Only \<^verbatim>\<open>output\<close> and \<^verbatim>\<open>return_code\<close> are mandatory in the
  source; \<open>ExecutionResult_default\<close> fills in the defaults of the other fields.
\<close>

record ExecutionResult =
  output_text :: string
  return_code :: int
  error_message :: "string option"
  error_code :: "int option"
  graphs :: "GraphArtifact list"
  execution_time :: real
  log_path :: "path option"

definition ExecutionResult_default :: "string \<Rightarrow> int \<Rightarrow> ExecutionResult" where
  "ExecutionResult_default out rc =
     \<lparr>output_text = out, return_code = rc, error_message = None, error_code = None,
      graphs = [], execution_time = 0, log_path = None\<rparr>"

text \<open>The property \<^verbatim>\<open>success\<close>: \<^verbatim>\<open>return self.return_code == 0\<close>.\<close>

definition success :: "ExecutionResult \<Rightarrow> bool" where
  "success r = (return_code r = 0)"

section \<open>The world outside a session\<close>

text \<open>
  What one call observes of the operating system, the child process and the clock is a
  value of \<open>world\<close>: each field is the answer that the named operation gets during
  the call. \<open>expect\<close> gives the outcome of the successive \<^verbatim>\<open>expect\<close> calls of the read
  loop; what the call does to the outside is returned as a list of \<open>action\<close>s.
\<close>

datatype expect_event =
    is_Prompt: Prompt (un_Prompt: "string option")
  | is_Continuation: Continuation (un_Continuation: "string option")
  | Timeout
  | Eof

datatype run_outcome = RunTimeout | RunOSError oserror | Completed int string string

datatype action =
    Spawn
  | SendLine string
  | WriteFile path string
  | Unlink path
  | RunBatch path
  | Terminate
  | RemoveTree path

record world =
  has_pexpect :: bool
  alive :: "nat \<Rightarrow> bool"
  tmpdir_exists :: bool
  make_temp_dir :: path
  spawn_process :: "error + nat"
  timestamp_ms :: int
  dir_before :: directory
  uuid_hex :: string
  write_text :: "oserror option"
  expect :: "nat \<Rightarrow> expect_event"
  subprocess_run :: run_outcome
  log_file_text :: "(oserror + string) option"
  dir_after :: directory
  read_bytes :: reader
  read_header :: reader
  elapsed :: real

section \<open>The interactive session\<close>

text \<open>
  The state of a \<^verbatim>\<open>StataSession\<close>: \<open>process\<close> is the handle of the child (its
  process id), \<open>graph_snapshot\<close> is the \<^verbatim>\<open>_snapshot\<close> of its graph cache, whose
  watched directory is always \<open>tmpdir\<close>.
\<close>

record StataSession =
  session_id :: string
  process :: "nat option"
  log_buffer :: "string list"
  tmpdir :: path
  graph_snapshot :: snapshot
  started :: bool

definition StataSession_init :: "world \<Rightarrow> string \<Rightarrow> StataSession" where
  "StataSession_init w sid =
     \<lparr>session_id = sid, process = None, log_buffer = [], tmpdir = make_temp_dir w,
      graph_snapshot = [], started = False\<rparr>"

definition is_alive :: "world \<Rightarrow> StataSession \<Rightarrow> bool" where
  "is_alive w s = (case process s of None \<Rightarrow> False | Some pid \<Rightarrow> alive w pid)"

text \<open>\<^verbatim>\<open>StataSession.start\<close>: the error raised, if any, the new state and the actions.\<close>

definition start :: "world \<Rightarrow> StataSession \<Rightarrow> error option \<times> StataSession \<times> action list" where
  "start w s =
     (if \<not> has_pexpect w then
        (Some (RuntimeError ''pexpect is required for StataSession but is not installed. Install it with: pip install pexpect''), s, [])
      else if process s \<noteq> None \<and> alive w (the (process s)) then (None, s, [])
      else (case spawn_process w of
              Inl e \<Rightarrow> (Some e, s, [Spawn])
            | Inr pid \<Rightarrow> (None, s\<lparr>process := Some pid, started := True\<rparr>, [Spawn])))"

text \<open>\<^verbatim>\<open>StataSession._ensure_alive\<close>.\<close>

definition ensure_alive :: "world \<Rightarrow> StataSession \<Rightarrow> error option \<times> StataSession \<times> action list" where
  "ensure_alive w s =
     (if \<not> is_alive w s then
        start w (if \<not> tmpdir_exists w
                 then s\<lparr>tmpdir := make_temp_dir w, graph_snapshot := []\<rparr> else s)
      else (None, s, []))"

text \<open>
  \<^verbatim>\<open>StataSession._run_do_file\<close> after the command is sent: the read loop, from the
  \<open>i\<close>-th call of \<^verbatim>\<open>expect\<close>, with the parts of the output read so far. The loop
  ends at the primary prompt, or when \<^verbatim>\<open>expect\<close> raises; it does not end while
  continuation prompts keep coming, and the value is \<open>None\<close> then.
\<close>

partial_function (option) run_do_file :: "(nat \<Rightarrow> expect_event) \<Rightarrow> nat \<Rightarrow> string list \<Rightarrow> (error + string) option" where
  "run_do_file ev i output_parts =
     (if is_Prompt (ev i) then
        Some (Inr (concat (output_parts @ [case un_Prompt (ev i) of None \<Rightarrow> [] | Some b \<Rightarrow> b])))
      else if is_Continuation (ev i) then
        run_do_file ev (Suc i)
          (output_parts @ [case un_Continuation (ev i) of None \<Rightarrow> [] | Some b \<Rightarrow> b])
      else if ev i = Timeout then Some (Inl PexpectTIMEOUT)
      else Some (Inl PexpectEOF))"

text \<open>\<^verbatim>\<open>StataSession._clean_do_output\<close>: the loop over the lines, then the trailing
  lines that hold a single dot are removed.\<close>

fun clean_loop :: "path \<Rightarrow> bool \<Rightarrow> string list \<Rightarrow> string list \<Rightarrow> string list" where
  "clean_loop do_file skip_do_echo cleaned [] = cleaned"
| "clean_loop do_file skip_do_echo cleaned (line # lines) =
     (let stripped = strip line in
      if skip_do_echo \<and> (startswith stripped (''do \"'' @ do_file)
                          \<or> startswith stripped ''do '' \<or> stripped = [])
      then clean_loop do_file (if startswith stripped ''do '' then False else skip_do_echo)
             cleaned lines
      else if stripped = ''end of do-file'' then clean_loop do_file skip_do_echo cleaned lines
      else if startswith stripped ''> '' \<and> str_contains stripped (path_stem do_file)
      then clean_loop do_file skip_do_echo cleaned lines
      else if startswith stripped ''. '' then clean_loop do_file skip_do_echo cleaned lines
      else clean_loop do_file skip_do_echo (cleaned @ [line]) lines)"

definition clean_do_output :: "string \<Rightarrow> path \<Rightarrow> string" where
  "clean_do_output out do_file =
     (let cleaned = clean_loop do_file True [] (splitlines out);
          cleaned' = rev (dropWhile (\<lambda>l. strip l = ''.'') (rev cleaned))
      in strip (join [CHR 0x0A] cleaned'))"

text \<open>The result that both sessions compose after a run, from the cleaned output.\<close>

definition compose_result :: "string \<Rightarrow> GraphArtifact list \<Rightarrow> real \<Rightarrow> path option \<Rightarrow> ExecutionResult" where
  "compose_result cleaned gs t lp =
     (let (error_message', error_code') = detect_error cleaned;
          return_code' = (if error_code' = None \<and> error_message' = None then 0 else 1)
      in \<lparr>output_text = cleaned, return_code = return_code', error_message = error_message',
          error_code = error_code', graphs = gs, execution_time = t, log_path = lp\<rparr>)"

definition failure_result :: "string \<Rightarrow> real \<Rightarrow> path option \<Rightarrow> ExecutionResult" where
  "failure_result msg t lp =
     \<lparr>output_text = [], return_code = 1, error_message = Some msg, error_code = None,
      graphs = [], execution_time = t, log_path = lp\<rparr>"

text \<open>
  \<^verbatim>\<open>StataSession.execute\<close>. The value is \<open>None\<close> when the read loop does not end;
  otherwise it is the exception raised or the result returned, the new state of the
  session and the actions performed, in order.
\<close>

definition execute :: "world \<Rightarrow> StataSession \<Rightarrow> string \<Rightarrow> int \<Rightarrow> ((error + ExecutionResult) \<times> StataSession \<times> action list) option" where
  "execute w s code timeout =
     (case ensure_alive w s of
        (Some e, s1, acts1) \<Rightarrow> Some (Inl e, s1, acts1)
      | (None, s1, acts1) \<Rightarrow>
          (let code' = maybe_inject_graph_export code (tmpdir s1) (timestamp_ms w);
               s2 = s1\<lparr>graph_snapshot := take_snapshot (tmpdir s1) (dir_before w)\<rparr>;
               do_file = joinpath (tmpdir s2) (''_cmd_'' @ take 12 (uuid_hex w) @ ''.do'')
           in case write_text w of
                Some e \<Rightarrow> Some (Inl (OSError e), s2, acts1 @ [WriteFile do_file code'])
              | None \<Rightarrow>
                  (let acts2 = acts1 @ [WriteFile do_file code',
                                         SendLine (''do \"'' @ do_file @ ''\"''), Unlink do_file]
                   in case run_do_file (expect w) 0 [] of
                        None \<Rightarrow> None
                      | Some (Inl err) \<Rightarrow>
                          (if err = PexpectTIMEOUT then
                             Some (Inr (failure_result
                                         (''Command timed out after '' @ py_str timeout @ ''s'')
                                         (elapsed w) None), s2, acts2)
                           else if err = PexpectEOF then
                             Some (Inr (failure_result ''Stata process terminated unexpectedly''
                                         (elapsed w) None),
                                   s2\<lparr>process := None, started := False\<rparr>, acts2)
                           else Some (Inl err, s2, acts2))
                      | Some (Inr raw_output) \<Rightarrow>
                          (let cleaned = clean_do_output (strip_smcl raw_output) do_file;
                               (gs, snap) = detect_changes (tmpdir s2) (dir_after w)
                                              (read_bytes w) (read_header w) (graph_snapshot s2);
                               s3 = s2\<lparr>graph_snapshot := snap,
                                       log_buffer := log_buffer s2 @ [cleaned]\<rparr>
                           in Some (Inr (compose_result cleaned gs (elapsed w) None), s3, acts2)))))"

text \<open>\<^verbatim>\<open>StataSession.get_log\<close>.\<close>

definition get_log :: "StataSession \<Rightarrow> string" where
  "get_log s = join [CHR 0x0A] (log_buffer s)"

text \<open>
  \<^verbatim>\<open>StataSession.close\<close>; \<open>alive_after_exit\<close> answers the second \<^verbatim>\<open>isalive\<close>, asked
  after the exit command.
\<close>

definition close :: "world \<Rightarrow> bool \<Rightarrow> StataSession \<Rightarrow> StataSession \<times> action list" where
  "close w alive_after_exit s =
     (case process s of
        None \<Rightarrow> (s, [RemoveTree (tmpdir s)])
      | Some pid \<Rightarrow>
          (s\<lparr>process := None, started := False\<rparr>,
           (if alive w pid
            then SendLine ''exit, clear'' # (if alive_after_exit then [Terminate] else [])
            else []) @ [RemoveTree (tmpdir s)]))"

section \<open>The batch session\<close>

record BatchSession =
  b_session_id :: string
  b_tmpdir :: path
  b_graph_snapshot :: snapshot
  b_log_buffer :: "string list"
  b_started :: bool

definition BatchSession_init :: "world \<Rightarrow> string \<Rightarrow> BatchSession" where
  "BatchSession_init w sid =
     \<lparr>b_session_id = sid, b_tmpdir = make_temp_dir w, b_graph_snapshot = [],
      b_log_buffer = [], b_started = False\<rparr>"

definition b_start :: "BatchSession \<Rightarrow> BatchSession" where
  "b_start b = b\<lparr>b_started := True\<rparr>"

definition b_is_alive :: "BatchSession \<Rightarrow> bool" where
  "b_is_alive b = b_started b"

text \<open>
  \<^verbatim>\<open>BatchSession._run_batch\<close>: the child runs with its standard streams captured
  (\<^verbatim>\<open>capture_output=True\<close>), and what \<^verbatim>\<open>subprocess.run\<close> returns is dropped; the text is
  that of the log file if it exists, and the empty string otherwise.
\<close>

definition run_batch :: "world \<Rightarrow> error + string" where
  "run_batch w =
     (case subprocess_run w of
        RunTimeout \<Rightarrow> Inl TimeoutExpired
      | RunOSError e \<Rightarrow> Inl (OSError e)
      | Completed rc out err \<Rightarrow>
          (case log_file_text w of
             None \<Rightarrow> Inr []
           | Some (Inl e) \<Rightarrow> Inl (OSError e)
           | Some (Inr text) \<Rightarrow> Inr text))"

text \<open>\<^verbatim>\<open>BatchSession.execute\<close>.\<close>

definition b_execute :: "world \<Rightarrow> BatchSession \<Rightarrow> string \<Rightarrow> int \<Rightarrow> (error + ExecutionResult) \<times> BatchSession \<times> action list" where
  "b_execute w b code timeout =
     (let b1 = (if \<not> b_started b then b_start b else b);
          code' = maybe_inject_graph_export code (b_tmpdir b1) (timestamp_ms w);
          b2 = b1\<lparr>b_graph_snapshot := take_snapshot (b_tmpdir b1) (dir_before w)\<rparr>;
          do_name = ''_batch_'' @ take 12 (uuid_hex w);
          do_file = joinpath (b_tmpdir b2) (do_name @ ''.do'');
          log_file = joinpath (b_tmpdir b2) (do_name @ ''.log'');
          log_path' = (if log_file_text w \<noteq> None then Some log_file else None)
      in case write_text w of
           Some e \<Rightarrow> (Inl (OSError e), b2, [WriteFile do_file code'])
         | None \<Rightarrow>
             (let acts = [WriteFile do_file code', RunBatch do_file]
              in case run_batch w of
                   Inl err \<Rightarrow>
                     (if err = TimeoutExpired then
                        (Inr (failure_result
                               (''Batch command timed out after '' @ py_str timeout @ ''s'')
                               (elapsed w) log_path'), b2, acts)
                      else (Inl err, b2, acts))
                 | Inr raw_output \<Rightarrow>
                     (let cleaned = strip_smcl raw_output;
                          (gs, snap) = detect_changes (b_tmpdir b2) (dir_after w)
                                         (read_bytes w) (read_header w) (b_graph_snapshot b2);
                          b3 = b2\<lparr>b_graph_snapshot := snap,
                                  b_log_buffer := b_log_buffer b2 @ [cleaned]\<rparr>
                      in (Inr (compose_result cleaned gs (elapsed w) log_path'), b3, acts))))"

definition b_get_log :: "BatchSession \<Rightarrow> string" where
  "b_get_log b = join [CHR 0x0A] (b_log_buffer b)"

section \<open>The session manager\<close>

datatype session = Interactive StataSession | Batch BatchSession

fun session_is_alive :: "world \<Rightarrow> session \<Rightarrow> bool" where
  "session_is_alive w (Interactive s) = is_alive w s"
| "session_is_alive w (Batch b) = b_is_alive b"

fun session_get_log :: "session \<Rightarrow> string" where
  "session_get_log (Interactive s) = get_log s"
| "session_get_log (Batch b) = b_get_log b"

text \<open>
  The state of a \<^verbatim>\<open>SessionManager\<close>: the dictionary \<^verbatim>\<open>_sessions\<close> and the flag
  \<^verbatim>\<open>_use_batch\<close>. A session object is held here by its state; a caller that executes
  on a session it got from the manager stores the new state back with \<open>put_session\<close>.
\<close>

record SessionManager =
  sessions :: "(string \<times> session) list"
  use_batch :: bool

definition put_session :: "SessionManager \<Rightarrow> string \<Rightarrow> session \<Rightarrow> SessionManager" where
  "put_session m sid x = m\<lparr>sessions := dict_set (sessions m) sid x\<rparr>"

text \<open>
  \<^verbatim>\<open>SessionManager.get_or_create\<close>: the exception raised or the session returned, and
  the new state of the manager. A session that is found dead is deleted from the
  dictionary and a new session object is created in its place.
\<close>

definition get_or_create :: "world \<Rightarrow> SessionManager \<Rightarrow> string \<Rightarrow> (error + session) \<times> SessionManager" where
  "get_or_create w m sid =
     (case map_of (sessions m) sid of
        Some x \<Rightarrow>
          (if session_is_alive w x then (Inr x, m)
           else
             (let m1 = m\<lparr>sessions := filter (\<lambda>(k, v). k \<noteq> sid) (sessions m)\<rparr> in
              if use_batch m then
                (let x' = Batch (b_start (BatchSession_init w sid)) in (Inr x', put_session m1 sid x'))
              else
                (case start w (StataSession_init w sid) of
                   (Some e, s', acts) \<Rightarrow> (Inl e, m1)
                 | (None, s', acts) \<Rightarrow> (Inr (Interactive s'), put_session m1 sid (Interactive s')))))
      | None \<Rightarrow>
          (if use_batch m then
             (let x' = Batch (b_start (BatchSession_init w sid)) in (Inr x', put_session m sid x'))
           else
             (case start w (StataSession_init w sid) of
                (Some e, s', acts) \<Rightarrow> (Inl e, m)
              | (None, s', acts) \<Rightarrow> (Inr (Interactive s'), put_session m sid (Interactive s')))))"

section \<open>Example values\<close>

text \<open>
  A world in which the child with process id 1 has died and a new child gets process
  id 2, the read loop sees one continuation prompt and then times out, a batch run
  prints \<^verbatim>\<open>2\<close> on its standard output and writes no log file, and the scratch directory
  stays empty; a session whose child is process 1 and whose log holds one output; a
  manager that holds this session; and a batch session.
\<close>

definition example_world :: world where
  "example_world =
     \<lparr>has_pexpect = True, alive = (\<lambda>pid. pid = 2), tmpdir_exists = True,
      make_temp_dir = ''/tmp/stata_session_b'', spawn_process = Inr 2,
      timestamp_ms = 1700000000000, dir_before = Some [],
      uuid_hex = ''0123456789abcdef0123456789abcdef'', write_text = None,
      expect = (\<lambda>i. if i = 0 then Continuation (Some ''> '') else Timeout),
      subprocess_run = Completed 0 ''2'' [], log_file_text = None, dir_after = Some [],
      read_bytes = (\<lambda>p. Inl FileNotFoundError), read_header = (\<lambda>p. Inl FileNotFoundError),
      elapsed = 5\<rparr>"

definition example_session :: StataSession where
  "example_session =
     \<lparr>session_id = ''default'', process = Some 1, log_buffer = [''2''],
      tmpdir = ''/tmp/stata_session_a'', graph_snapshot = [], started = True\<rparr>"

definition example_manager :: SessionManager where
  "example_manager = \<lparr>sessions = [(''default'', Interactive example_session)], use_batch = False\<rparr>"

definition example_batch :: BatchSession where
  "example_batch =
     \<lparr>b_session_id = ''default'', b_tmpdir = ''/tmp/stata_session_c'', b_graph_snapshot = [],
      b_log_buffer = [], b_started = True\<rparr>"

definition example_session_after :: StataSession where
  "example_session_after =
     \<lparr>session_id = ''default'', process = Some 2, log_buffer = [''2''],
      tmpdir = ''/tmp/stata_session_a'', graph_snapshot = [], started = True\<rparr>"

definition example_actions :: "action list" where
  "example_actions =
     [Spawn, WriteFile ''/tmp/stata_session_a/_cmd_0123456789ab.do'' ''display 1'',
      SendLine ''do \"/tmp/stata_session_a/_cmd_0123456789ab.do\"'',
      Unlink ''/tmp/stata_session_a/_cmd_0123456789ab.do'']"

definition example_batch_after :: BatchSession where
  "example_batch_after =
     \<lparr>b_session_id = ''default'', b_tmpdir = ''/tmp/stata_session_c'', b_graph_snapshot = [],
      b_log_buffer = [[]], b_started = True\<rparr>"

definition example_batch_actions :: "action list" where
  "example_batch_actions =
     [WriteFile ''/tmp/stata_session_c/_batch_0123456789ab.do'' ''display 1+1'',
      RunBatch ''/tmp/stata_session_c/_batch_0123456789ab.do'']"

section \<open>Evaluation of the text functions on fixed inputs\<close>

lemma strip_smcl_empty: "strip_smcl [] = []"
  by code_simp

lemma detect_error_empty: "detect_error [] = (None, None)"
  by code_simp

section \<open>Properties of execution results\<close>

lemma success_compose_result:
  "success (compose_result c gs t lp) \<longleftrightarrow>
     error_message (compose_result c gs t lp) = None \<and> error_code (compose_result c gs t lp) = None"
  by (auto simp: compose_result_def success_def split: prod.splits)

lemma success_failure_result:
  "success (failure_result msg t lp) \<longleftrightarrow>
     error_message (failure_result msg t lp) = None \<and> error_code (failure_result msg t lp) = None"
  by (simp add: failure_result_def success_def)

lemma execute_result_shape:
  assumes "execute w s code timeout = Some (Inr res, s', acts)"
  shows "(\<exists>c gs. res = compose_result c gs (elapsed w) None)
         \<or> (\<exists>msg. res = failure_result msg (elapsed w) None)"
  using assms
  by (auto simp: execute_def Let_def split: prod.splits option.splits sum.splits if_splits)

lemma b_execute_result_shape:
  assumes "b_execute w b code timeout = (Inr res, b', acts)"
  shows "(\<exists>c gs lp. res = compose_result c gs (elapsed w) lp)
         \<or> (\<exists>msg lp. res = failure_result msg (elapsed w) lp)"
  using assms
  by (auto simp: b_execute_def Let_def split: prod.splits option.splits sum.splits if_splits)

text \<open>
  Claim C1, as the specification states it, fails for a result that is constructed
  directly: a result built with return code 0 and an error message reports success
  although its error message is present.
\<close>

theorem C1_success_counterexample:
  "success ((ExecutionResult_default ''ok'' 0)\<lparr>error_message := Some ''boom''\<rparr>)
   \<and> error_message ((ExecutionResult_default ''ok'' 0)\<lparr>error_message := Some ''boom''\<rparr>) \<noteq> None"
  by (simp add: success_def ExecutionResult_default_def)

text \<open>
  Claim C1, amended: for every result that \<^verbatim>\<open>StataSession.execute\<close> or
  \<^verbatim>\<open>BatchSession.execute\<close> returns, \<^verbatim>\<open>success\<close> is true if and only if both
  \<^verbatim>\<open>error_message\<close> and \<^verbatim>\<open>error_code\<close> are absent, and the same holds for every
  constructed result whose return code is 0 exactly when both are absent; for a result
  constructed directly with arbitrary fields, \<^verbatim>\<open>success\<close> is true if and only if the
  return code is 0.
\<close>

theorem C1_success_amended:
  "(success r \<longleftrightarrow> return_code r = 0)
   \<and> ((return_code r = 0 \<longleftrightarrow> error_message r = None \<and> error_code r = None) \<longrightarrow>
        (success r \<longleftrightarrow> error_message r = None \<and> error_code r = None))
   \<and> (execute w s code timeout = Some (Inr res, s', acts) \<longrightarrow>
        (success res \<longleftrightarrow> error_message res = None \<and> error_code res = None))
   \<and> (b_execute bw b bcode btimeout = (Inr bres, b', bacts) \<longrightarrow>
        (success bres \<longleftrightarrow> error_message bres = None \<and> error_code bres = None))"
proof (intro conjI impI)
  show "success r \<longleftrightarrow> return_code r = 0"
    by (simp add: success_def)
next
  assume "return_code r = 0 \<longleftrightarrow> error_message r = None \<and> error_code r = None"
  then show "success r \<longleftrightarrow> error_message r = None \<and> error_code r = None"
    by (simp add: success_def)
next
  assume "execute w s code timeout = Some (Inr res, s', acts)"
  from execute_result_shape [OF this]
  show "success res \<longleftrightarrow> error_message res = None \<and> error_code res = None"
    using success_compose_result success_failure_result by auto
next
  assume "b_execute bw b bcode btimeout = (Inr bres, b', bacts)"
  from b_execute_result_shape [OF this]
  show "success bres \<longleftrightarrow> error_message bres = None \<and> error_code bres = None"
    using success_compose_result success_failure_result by auto
qed

lemma scan_empty: "scan wd (Some []) = []"
  by (simp add: scan_def SUPPORTED_EXTENSIONS_def glob_ext_def)

lemma example_ensure_alive:
  "ensure_alive example_world example_session = (None, example_session\<lparr>process := Some 2\<rparr>, [Spawn])"
  by (simp add: ensure_alive_def is_alive_def start_def example_world_def example_session_def)

lemma example_run_do_file: "run_do_file (expect example_world) 0 [] = Some (Inl PexpectTIMEOUT)"
  by (subst run_do_file.simps, simp add: example_world_def, subst run_do_file.simps, simp)

lemma example_inject:
  "maybe_inject_graph_export ''display 1'' ''/tmp/stata_session_a'' 1700000000000 = ''display 1''"
  "maybe_inject_graph_export ''display 1+1'' ''/tmp/stata_session_c'' 1700000000000 = ''display 1+1''"
  by code_simp+

lemma example_names:
  "py_str 5 = ''5''"
  by code_simp

lemma example_execute:
  "execute example_world example_session ''display 1'' 5 =
     Some (Inr (failure_result ''Command timed out after 5s'' 5 None),
           example_session_after, example_actions)"
proof -
  have w: "timestamp_ms example_world = 1700000000000" "dir_before example_world = Some []"
    "uuid_hex example_world = ''0123456789abcdef0123456789abcdef''"
    "write_text example_world = None" "elapsed example_world = 5"
    by (simp_all add: example_world_def)
  have t: "tmpdir (example_session\<lparr>process := Some 2\<rparr>) = ''/tmp/stata_session_a''"
    by (simp add: example_session_def)
  have s: "example_session\<lparr>process := Some 2, graph_snapshot := []\<rparr> =
      \<lparr>session_id = ''default'', process = Some 2, log_buffer = [''2''],
       tmpdir = ''/tmp/stata_session_a'', graph_snapshot = [], started = True\<rparr>"
    by (simp add: example_session_def)
  show ?thesis
    unfolding execute_def example_ensure_alive
    by (simp add: Let_def w t s example_inject example_names example_run_do_file
          take_snapshot_def scan_empty example_actions_def joinpath_def
          example_session_after_def)
qed

lemma example_b_execute:
  "b_execute example_world example_batch ''display 1+1'' 120 =
     (Inr (compose_result [] [] 5 None), example_batch_after, example_batch_actions)"
proof -
  have w: "timestamp_ms example_world = 1700000000000" "dir_before example_world = Some []"
    "uuid_hex example_world = ''0123456789abcdef0123456789abcdef''"
    "write_text example_world = None" "elapsed example_world = 5"
    "dir_after example_world = Some []" "log_file_text example_world = None"
    "subprocess_run example_world = Completed 0 ''2'' []"
    by (simp_all add: example_world_def)
  have r: "run_batch example_world = Inr []"
    by (simp add: run_batch_def w)
  show ?thesis
    unfolding b_execute_def
    by (simp add: Let_def w r example_inject example_names take_snapshot_def scan_empty
          detect_changes_def strip_smcl_empty example_batch_def example_batch_after_def
          example_batch_actions_def joinpath_def)
qed

theorem C1_success_amended_witness:
  "execute example_world example_session ''display 1'' 5 =
     Some (Inr (failure_result ''Command timed out after 5s'' 5 None),
           example_session_after, example_actions)
   \<and> (success (failure_result ''Command timed out after 5s'' 5 None) \<longleftrightarrow>
        error_message (failure_result ''Command timed out after 5s'' 5 None) = None
        \<and> error_code (failure_result ''Command timed out after 5s'' 5 None) = None)
   \<and> b_execute example_world example_batch ''display 1+1'' 120 =
        (Inr (compose_result [] [] 5 None), example_batch_after, example_batch_actions)
   \<and> (success (compose_result [] [] 5 None) \<longleftrightarrow>
        error_message (compose_result [] [] 5 None) = None
        \<and> error_code (compose_result [] [] 5 None) = None)"
  using C1_success_amended [of "failure_result ''Command timed out after 5s'' 5 None"
      example_world example_session "''display 1''" 5
      "failure_result ''Command timed out after 5s'' 5 None"
      example_session_after example_actions
      example_world example_batch "''display 1+1''" 120 "compose_result [] [] 5 None"
      example_batch_after example_batch_actions]
    example_execute example_b_execute
  by (simp add: failure_result_def compose_result_def detect_error_empty success_def)

section \<open>The batch session without a log file\<close>

text \<open>
  Claim C2, as the specification states it, fails: in the example world the batch run
  completes, prints \<^verbatim>\<open>2\<close> on its standard output and writes no log file, and the
  returned output is the empty string.
\<close>

theorem C2_batch_no_log_counterexample:
  "subprocess_run example_world = Completed 0 ''2'' []
   \<and> log_file_text example_world = None
   \<and> b_execute example_world example_batch ''display 1+1'' 120 =
        (Inr (compose_result [] [] 5 None), example_batch_after, example_batch_actions)
   \<and> output_text (compose_result [] [] 5 None) = []"
  using example_b_execute
  by (simp add: example_world_def compose_result_def detect_error_empty)

text \<open>
  Claim C2, amended: for every \<^verbatim>\<open>BatchSession.execute\<close> call in which the external
  process completes and produces no log file sharing the command file's name stem, the
  returned output is the empty string, whatever the process wrote to its captured
  standard streams; the result has return code 0, no error message, no error code and no
  log path, and the empty string is appended to the session's log.
\<close>

theorem C2_batch_no_log_amended:
  assumes "subprocess_run w = Completed rc out err"
    and "log_file_text w = None"
    and "write_text w = None"
  shows "\<exists>gs b' acts.
           b_execute w b code timeout =
             (Inr \<lparr>output_text = [], return_code = 0, error_message = None, error_code = None,
                   graphs = gs, execution_time = elapsed w, log_path = None\<rparr>, b', acts)
           \<and> b_log_buffer b' = b_log_buffer b @ [[]]"
proof -
  have r: "run_batch w = Inr []"
    using assms by (simp add: run_batch_def)
  show ?thesis
    unfolding b_execute_def
    by (simp add: Let_def r assms strip_smcl_empty compose_result_def detect_error_empty
          b_start_def split: prod.splits)
qed

theorem C2_batch_no_log_amended_witness:
  "\<exists>gs b' acts.
     b_execute example_world example_batch ''display 1+1'' 120 =
       (Inr \<lparr>output_text = [], return_code = 0, error_message = None, error_code = None,
             graphs = gs, execution_time = elapsed example_world, log_path = None\<rparr>, b', acts)
     \<and> b_log_buffer b' = b_log_buffer example_batch @ [[]]"
  using C2_batch_no_log_amended [of example_world 0 "''2''" "[]" example_batch "''display 1+1''" 120]
  by (simp add: example_world_def)

section \<open>Restart of a dead session\<close>

lemma start_log_buffer:
  "start w s = (r, s', acts) \<Longrightarrow> log_buffer s' = log_buffer s \<and> session_id s' = session_id s"
  by (auto simp: start_def split: if_splits sum.splits)

lemma ensure_alive_log_buffer:
  "ensure_alive w s = (r, s', acts) \<Longrightarrow> log_buffer s' = log_buffer s \<and> session_id s' = session_id s"
  by (auto simp: ensure_alive_def split: if_splits dest: start_log_buffer)

lemma execute_log_prefix:
  assumes "execute w s code timeout = Some (r, s', acts)"
  shows "take (length (log_buffer s)) (log_buffer s') = log_buffer s"
proof -
  obtain e s1 acts1 where ea: "ensure_alive w s = (e, s1, acts1)"
    by (cases "ensure_alive w s") auto
  have l: "log_buffer s1 = log_buffer s"
    using ensure_alive_log_buffer [OF ea] by simp
  show ?thesis
    using assms l
    by (auto simp: execute_def ea Let_def split: prod.splits option.splits sum.splits if_splits)
qed

lemma map_of_dict_set: "map_of (dict_set d k v) k = Some v"
proof (cases "k \<in> set (map fst d)")
  case True
  then have "map_of (map (\<lambda>(k', v'). if k' = k then (k', v) else (k', v')) d) k = Some v"
    by (induction d) auto
  with True show ?thesis by (simp add: dict_set_def)
next
  case False
  then have "map_of d k = None"
    by (simp add: map_of_eq_None_iff)
  with False show ?thesis by (simp add: dict_set_def map_add_def)
qed

lemma fresh_session_log:
  "start w (StataSession_init w sid) = (r, s', acts) \<Longrightarrow> get_log s' = []"
  using start_log_buffer [of w "StataSession_init w sid" r s' acts]
  by (simp add: get_log_def StataSession_init_def)

text \<open>
  Claim C3, as the specification states it, fails when the dead session is reached
  through the registry: the example manager holds a session whose log is \<^verbatim>\<open>2\<close> and whose
  child has died, and \<^verbatim>\<open>get_or_create\<close> returns a new session whose log is empty.
\<close>

theorem C3_registry_counterexample:
  "map_of (sessions example_manager) ''default'' = Some (Interactive example_session)
   \<and> \<not> session_is_alive example_world (Interactive example_session)
   \<and> session_get_log (Interactive example_session) = ''2''
   \<and> fst (get_or_create example_world example_manager ''default'') =
        Inr (Interactive \<lparr>session_id = ''default'', process = Some 2, log_buffer = [],
               tmpdir = ''/tmp/stata_session_b'', graph_snapshot = [], started = True\<rparr>)
   \<and> session_get_log (Interactive \<lparr>session_id = ''default'', process = Some 2, log_buffer = [],
               tmpdir = ''/tmp/stata_session_b'', graph_snapshot = [], started = True\<rparr>) = []"
  by (simp add: example_manager_def example_session_def example_world_def get_or_create_def
        is_alive_def start_def StataSession_init_def get_log_def put_session_def)

text \<open>
  Claim C3, amended: when a session is found dead by its own \<^verbatim>\<open>execute\<close>
  (\<^verbatim>\<open>_ensure_alive\<close>) and restarts, it keeps its identity and its accumulated output log:
  \<^verbatim>\<open>get_log\<close> is unchanged by the restart, and the log after the call starts with the
  log before it. When the dead session is reached through the registry's
  \<^verbatim>\<open>get_or_create\<close>, it is removed and replaced by a new session, registered under the
  same id, whose log is empty.
\<close>

theorem C3_restart_amended:
  "(\<not> is_alive w s \<and> ensure_alive w s = (None, s1, acts1) \<longrightarrow>
      session_id s1 = session_id s \<and> log_buffer s1 = log_buffer s \<and> get_log s1 = get_log s)
   \<and> (\<not> is_alive w s \<and> execute w s code timeout = Some (r, s', acts) \<longrightarrow>
        take (length (log_buffer s)) (log_buffer s') = log_buffer s)
   \<and> (map_of (sessions m) sid = Some x \<and> \<not> session_is_alive w' x
        \<and> get_or_create w' m sid = (Inr x', m') \<longrightarrow>
        session_get_log x' = [] \<and> map_of (sessions m') sid = Some x')"
proof (intro conjI impI)
  assume a: "\<not> is_alive w s \<and> ensure_alive w s = (None, s1, acts1)"
  then show "session_id s1 = session_id s" "log_buffer s1 = log_buffer s"
    using ensure_alive_log_buffer by blast+
  then show "get_log s1 = get_log s"
    by (simp add: get_log_def)
next
  assume "\<not> is_alive w s \<and> execute w s code timeout = Some (r, s', acts)"
  then show "take (length (log_buffer s)) (log_buffer s') = log_buffer s"
    using execute_log_prefix by blast
next
  assume a: "map_of (sessions m) sid = Some x \<and> \<not> session_is_alive w' x
        \<and> get_or_create w' m sid = (Inr x', m')"
  then have g: "get_or_create w' m sid = (Inr x', m')" and d: "\<not> session_is_alive w' x"
    and l: "map_of (sessions m) sid = Some x"
    by simp_all
  show "session_get_log x' = []"
    using g d l
    by (auto simp: get_or_create_def Let_def b_get_log_def b_start_def BatchSession_init_def
          split: if_splits prod.splits option.splits dest: fresh_session_log)
  show "map_of (sessions m') sid = Some x'"
    using g d l
    by (auto simp: get_or_create_def Let_def put_session_def map_of_dict_set
          split: if_splits prod.splits option.splits)
qed

lemma example_get_or_create:
  "get_or_create example_world example_manager ''default'' =
     (Inr (Interactive \<lparr>session_id = ''default'', process = Some 2, log_buffer = [],
               tmpdir = ''/tmp/stata_session_b'', graph_snapshot = [], started = True\<rparr>),
      \<lparr>sessions = [(''default'', Interactive \<lparr>session_id = ''default'', process = Some 2,
               log_buffer = [], tmpdir = ''/tmp/stata_session_b'', graph_snapshot = [],
               started = True\<rparr>)], use_batch = False\<rparr>)"
  by (simp add: example_manager_def example_session_def example_world_def get_or_create_def
        is_alive_def start_def StataSession_init_def put_session_def dict_set_def)

theorem C3_restart_amended_witness:
  "\<not> is_alive example_world example_session
   \<and> ensure_alive example_world example_session = (None, example_session\<lparr>process := Some 2\<rparr>, [Spawn])
   \<and> get_log (example_session\<lparr>process := Some 2\<rparr>) = get_log example_session
   \<and> take (length (log_buffer example_session)) (log_buffer example_session_after)
       = log_buffer example_session
   \<and> session_get_log (Interactive \<lparr>session_id = ''default'', process = Some 2, log_buffer = [],
               tmpdir = ''/tmp/stata_session_b'', graph_snapshot = [], started = True\<rparr>) = []"
  using C3_restart_amended [of example_world example_session "example_session\<lparr>process := Some 2\<rparr>"
      "[Spawn]" "''display 1''" 5 "Inr (failure_result ''Command timed out after 5s'' 5 None)"
      example_session_after example_actions example_manager "''default''"
      "Interactive example_session" example_world
      "Interactive \<lparr>session_id = ''default'', process = Some 2, log_buffer = [],
               tmpdir = ''/tmp/stata_session_b'', graph_snapshot = [], started = True\<rparr>"
      "\<lparr>sessions = [(''default'', Interactive \<lparr>session_id = ''default'', process = Some 2,
               log_buffer = [], tmpdir = ''/tmp/stata_session_b'', graph_snapshot = [],
               started = True\<rparr>)], use_batch = False\<rparr>"]
    example_ensure_alive example_execute example_get_or_create
  by (simp add: is_alive_def example_session_def example_world_def example_manager_def)

section \<open>Timeout of an interactive call\<close>






section \<open>Encoding a graph file\<close>

lemma supported_suffix_cases:
  "sfx \<in> set (map fst SUPPORTED_EXTENSIONS) \<longleftrightarrow>
     sfx = ''.png'' \<or> sfx = ''.pdf'' \<or> sfx = ''.svg'' \<or> sfx = ''.gph''"
  "sfx \<in> fst ` set SUPPORTED_EXTENSIONS \<longleftrightarrow>
     sfx = ''.png'' \<or> sfx = ''.pdf'' \<or> sfx = ''.svg'' \<or> sfx = ''.gph''"
  by (auto simp: SUPPORTED_EXTENSIONS_def)



lemma example_suffixes:
  "lower (path_suffix ''/tmp/stata_session_a/notes.txt'') = ''.txt''"
  "lower (path_suffix ''/tmp/stata_session_a/Graph.PNG'') = ''.png''"
  "lower (path_suffix ''/tmp/stata_session_a/plot.pdf'') = ''.pdf''"
  by code_simp+


text \<open>
  Claim C10: \<^verbatim>\<open>encode_graph\<close> checks the extension before it reads the file. For a path
  whose extension is outside the supported set it fails with the error for an unsupported
  format whatever a read of the file would answer, also when the file does not exist; so
  a read error, \<^verbatim>\<open>FileNotFoundError\<close> among them, can only arise for a path with a
  supported extension.
\<close>

theorem C10_extension_checked_first:
  "(lower (path_suffix p) \<notin> set (map fst SUPPORTED_EXTENSIONS) \<longrightarrow>
      (\<forall>rb rh. encode_graph rb rh p = Inl (UnsupportedGraphFormat (lower (path_suffix p)) p)))
   \<and> (encode_graph rb' rh' p = Inl (OSError e) \<longrightarrow>
        lower (path_suffix p) \<in> set (map fst SUPPORTED_EXTENSIONS) \<and> rb' p = Inl e)"
  by (auto simp: encode_graph_def Let_def split: sum.splits prod.splits if_splits)

theorem C10_extension_checked_first_witness:
  "encode_graph (\<lambda>p. Inl FileNotFoundError) (\<lambda>p. Inl FileNotFoundError)
       ''/tmp/stata_session_a/notes.txt''
     = Inl (UnsupportedGraphFormat ''.txt'' ''/tmp/stata_session_a/notes.txt'')
   \<and> encode_graph (\<lambda>p. Inl FileNotFoundError) (\<lambda>p. Inl FileNotFoundError)
       ''/tmp/stata_session_a/Graph.PNG'' = Inl (OSError FileNotFoundError)
   \<and> lower (path_suffix ''/tmp/stata_session_a/Graph.PNG'') \<in> set (map fst SUPPORTED_EXTENSIONS)"
proof -
  have u: "lower (path_suffix ''/tmp/stata_session_a/notes.txt'') \<notin> set (map fst SUPPORTED_EXTENSIONS)"
    by (simp add: example_suffixes supported_suffix_cases)
  have f: "encode_graph (\<lambda>p. Inl FileNotFoundError) (\<lambda>p. Inl FileNotFoundError)
       ''/tmp/stata_session_a/Graph.PNG'' = Inl (OSError FileNotFoundError)"
    by (simp add: encode_graph_def Let_def example_suffixes supported_suffix_cases)
  show ?thesis
    using C10_extension_checked_first [of "''/tmp/stata_session_a/notes.txt''"
        "\<lambda>p. Inl FileNotFoundError" "\<lambda>p. Inl FileNotFoundError" FileNotFoundError]
      C10_extension_checked_first [of "''/tmp/stata_session_a/Graph.PNG''"
        "\<lambda>p. Inl FileNotFoundError" "\<lambda>p. Inl FileNotFoundError" FileNotFoundError]
      u f
    by (simp add: example_suffixes)
qed

section \<open>Automatic graph export\<close>

lemma digit_val_char_of: "(k::nat) < 10 \<Longrightarrow> digit_val (char_of (48 + k)) = int k"
  by (simp add: digit_val_def)

lemma py_int_snoc: "py_int (ds @ [c]) = 10 * py_int ds + digit_val c"
  by (simp add: py_int_def)

lemma py_int_nat_digits: "py_int (nat_digits n) = int n"
proof (induction n rule: nat_digits.induct)
  case (1 n)
  show ?case
  proof (cases "n < 10")
    case True
    then show ?thesis
      by (subst nat_digits.simps) (simp add: py_int_def digit_val_char_of)
  next
    case False
    then have "py_int (nat_digits (n div 10)) = int (n div 10)"
      using "1.IH" by simp
    moreover have "10 * int (n div 10) + int (n mod 10) = int n"
      by presburger
    ultimately show ?thesis
      using False by (subst nat_digits.simps) (simp add: py_int_snoc digit_val_char_of)
  qed
qed

lemma char_of_digit_not_minus: "(k::nat) < 10 \<Longrightarrow> char_of (48 + k) \<noteq> CHR ''-''"
proof
  assume k: "k < 10" and "char_of (48 + k) = CHR ''-''"
  then have "(of_char (char_of (48 + k)) :: nat) = of_char CHR ''-''"
    by simp
  with k show False
    by simp
qed

lemma nat_digits_hd: "nat_digits n \<noteq> [] \<and> hd (nat_digits n) \<noteq> CHR ''-''"
proof (induction n rule: nat_digits.induct)
  case (1 n)
  show ?case
  proof (cases "n < 10")
    case True
    then show ?thesis
      by (subst (1 2) nat_digits.simps) (simp add: char_of_digit_not_minus)
  next
    case False
    with "1.IH" show ?thesis
      by (subst (1 2) nat_digits.simps) simp
  qed
qed

lemma py_str_inj: "py_str a = py_str b \<Longrightarrow> a = b"
proof -
  assume e: "py_str a = py_str b"
  have neg: False if "py_str x = py_str y" "x < 0" "\<not> y < 0" for x y
  proof -
    from that have "hd (nat_digits (nat y)) = CHR ''-''"
      by (simp add: py_str_def) (metis list.sel(1))
    then show False
      using nat_digits_hd by blast
  qed
  show ?thesis
  proof (cases "a < 0"; cases "b < 0")
    assume "a < 0" "b < 0"
    with e have "py_int (nat_digits (nat (- a))) = py_int (nat_digits (nat (- b)))"
      by (simp add: py_str_def)
    with \<open>a < 0\<close> \<open>b < 0\<close> show ?thesis
      by (simp add: py_int_nat_digits)
  next
    assume "\<not> a < 0" "\<not> b < 0"
    with e have "py_int (nat_digits (nat a)) = py_int (nat_digits (nat b))"
      by (simp add: py_str_def)
    with \<open>\<not> a < 0\<close> \<open>\<not> b < 0\<close> show ?thesis
      by (simp add: py_int_nat_digits)
  next
    assume "a < 0" "\<not> b < 0"
    with e neg show ?thesis by blast
  next
    assume "\<not> a < 0" "b < 0"
    with e neg [of b a] show ?thesis by simp
  qed
qed

lemma export_path_inj: "export_path tmp ts = export_path tmp ts' \<Longrightarrow> ts = ts'"
  by (auto simp: export_path_def joinpath_def dest: py_str_inj split: if_splits)

lemma rstrip_decompose:
  "code = rstrip code @ rev (takeWhile isspace (rev code))"
  "list_all isspace (rev (takeWhile isspace (rev code)))"
  "rstrip code = [] \<or> \<not> isspace (last (rstrip code))"
proof -
  have "rev (dropWhile isspace (rev code)) @ rev (takeWhile isspace (rev code))
      = rev (takeWhile isspace (rev code) @ dropWhile isspace (rev code))"
    by (simp only: rev_append)
  also have "\<dots> = code"
    by (simp only: takeWhile_dropWhile_id rev_rev_ident)
  finally show "code = rstrip code @ rev (takeWhile isspace (rev code))"
    by (simp only: rstrip_def)
  show "list_all isspace (rev (takeWhile isspace (rev code)))"
    by (auto simp: list_all_iff dest: set_takeWhileD)
  show "rstrip code = [] \<or> \<not> isspace (last (rstrip code))"
  proof (cases "dropWhile isspace (rev code) = []")
    case True
    then show ?thesis by (simp add: rstrip_def)
  next
    case False
    from hd_dropWhile [OF False] False show ?thesis
      by (simp add: rstrip_def last_rev)
  qed
qed

text \<open>
  Claim C7, as the specification states it, fails in its last case for a command that
  ends in white space: the command \<^verbatim>\<open>scatter y x\<close> followed by two spaces holds a graph
  command and no export directive, and the result does not start with the original
  command, whose trailing spaces are gone.
\<close>

theorem C7_inject_counterexample:
  "re_search HAS_EXPORT_RE ''scatter y x  '' = None
   \<and> re_search GRAPH_CMD_RE ''scatter y x  '' \<noteq> None
   \<and> maybe_inject_graph_export ''scatter y x  '' ''/tmp/stata_session_a'' 1700000000000 =
        ''scatter y x'' @ [CHR 0x0A]
          @ ''quietly graph export \"/tmp/stata_session_a/stata_graph_1700000000000.png\", width(2000) replace''
   \<and> take (length ''scatter y x  '')
        (maybe_inject_graph_export ''scatter y x  '' ''/tmp/stata_session_a'' 1700000000000)
        \<noteq> ''scatter y x  ''"
proof -
  have s1: "re_search HAS_EXPORT_RE ''scatter y x  '' = None"
    by code_simp
  have s2: "re_search GRAPH_CMD_RE ''scatter y x  '' \<noteq> None"
    by code_simp
  have r: "rstrip ''scatter y x  '' = ''scatter y x''"
    by code_simp
  have c: "char_of (48::nat) = CHR ''0''" "char_of (49::nat) = CHR ''1''"
    "char_of (55::nat) = CHR ''7''"
    by code_simp+
  have t: "py_str 1700000000000 = ''1700000000000''"
    by (simp add: py_str_def nat_digits.simps c)
  show ?thesis
    by (simp add: maybe_inject_graph_export_def s1 s2 r t export_line_def export_path_def
          joinpath_def)
qed

text \<open>
  Claim C7, amended: for every command string, if it already contains an explicit
  graph-export directive, \<^verbatim>\<open>maybe_inject_graph_export\<close> returns it unchanged; if it
  contains no graph-producing command name (as a whole word, optionally prefixed by a
  quiet modifier, at the start of a line) it is also returned unchanged; otherwise the
  result is the original code with its trailing white space removed, followed by an
  appended line directing graph export to a file in the scratch directory that is named
  by the time stamp (distinct time stamps give distinct files), at pixel width 2000, with
  overwrite allowed.
\<close>

theorem C7_inject_amended:
  "(re_search HAS_EXPORT_RE code \<noteq> None \<longrightarrow>
      maybe_inject_graph_export code tmp ts = code)
   \<and> (re_search GRAPH_CMD_RE code = None \<longrightarrow>
        maybe_inject_graph_export code tmp ts = code)
   \<and> (re_search HAS_EXPORT_RE code = None \<and> re_search GRAPH_CMD_RE code \<noteq> None \<longrightarrow>
        maybe_inject_graph_export code tmp ts =
          rstrip code @ [CHR 0x0A] @ ''quietly graph export \"''
            @ joinpath tmp (''stata_graph_'' @ py_str ts @ ''.png'')
            @ ''\", width(2000) replace'')
   \<and> code = rstrip code @ rev (takeWhile isspace (rev code))
   \<and> list_all isspace (rev (takeWhile isspace (rev code)))
   \<and> (rstrip code = [] \<or> \<not> isspace (last (rstrip code)))
   \<and> (export_path tmp ts = export_path tmp ts' \<longrightarrow> ts = ts')"
proof (intro conjI impI)
  show "re_search HAS_EXPORT_RE code \<noteq> None \<Longrightarrow>
      maybe_inject_graph_export code tmp ts = code"
    by (simp add: maybe_inject_graph_export_def)
  show "re_search GRAPH_CMD_RE code = None \<Longrightarrow>
      maybe_inject_graph_export code tmp ts = code"
    by (simp add: maybe_inject_graph_export_def)
  show "re_search HAS_EXPORT_RE code = None \<and> re_search GRAPH_CMD_RE code \<noteq> None \<Longrightarrow>
        maybe_inject_graph_export code tmp ts =
          rstrip code @ [CHR 0x0A] @ ''quietly graph export \"''
            @ joinpath tmp (''stata_graph_'' @ py_str ts @ ''.png'')
            @ ''\", width(2000) replace''"
    by (simp only: maybe_inject_graph_export_def export_line_def export_path_def) simp
  show "code = rstrip code @ rev (takeWhile isspace (rev code))"
    "list_all isspace (rev (takeWhile isspace (rev code)))"
    "rstrip code = [] \<or> \<not> isspace (last (rstrip code))"
    by (rule rstrip_decompose)+
  show "export_path tmp ts = export_path tmp ts' \<Longrightarrow> ts = ts'"
    by (rule export_path_inj)
qed

lemma example_inject_searches:
  "re_search HAS_EXPORT_RE ''quietly graph export \"g.png\", replace'' \<noteq> None"
  "re_search GRAPH_CMD_RE ''display 1'' = None"
  "re_search HAS_EXPORT_RE ''histogram price'' = None"
  "re_search GRAPH_CMD_RE ''histogram price'' \<noteq> None"
  "rstrip ''histogram price'' = ''histogram price''"
  by code_simp+

theorem C7_inject_amended_witness:
  "maybe_inject_graph_export ''quietly graph export \"g.png\", replace'' ''/tmp/stata_session_a'' 1
     = ''quietly graph export \"g.png\", replace''
   \<and> maybe_inject_graph_export ''display 1'' ''/tmp/stata_session_a'' 1 = ''display 1''
   \<and> maybe_inject_graph_export ''histogram price'' ''/tmp/stata_session_a'' 1 =
        ''histogram price'' @ [CHR 0x0A] @ ''quietly graph export \"''
          @ joinpath ''/tmp/stata_session_a'' (''stata_graph_'' @ py_str 1 @ ''.png'')
          @ ''\", width(2000) replace''"
  using C7_inject_amended [of "''quietly graph export \"g.png\", replace''" "''/tmp/stata_session_a''" 1 1]
    C7_inject_amended [of "''display 1''" "''/tmp/stata_session_a''" 1 1]
    C7_inject_amended [of "''histogram price''" "''/tmp/stata_session_a''" 1 1]
    example_inject_searches
  by simp

end
